theory Spec2Isabelle
  imports Complex_Main "HOL-Library.Multiset"
begin

section \<open>The chart pipeline of chart\_creator.py\<close>

text \<open>
  The program is one routine, \<^verbatim>\<open>create_chart(data_file, years)\<close>. It loads a table of
  daily bars, sorts it by date, adds a 150-bar simple moving average of the closes, keeps
  the trailing \<^verbatim>\<open>years * 365\<close> days, renumbers the rows, splits them into rising and
  falling candles, places the x-axis ticks where the month changes, classifies the last
  close against the moving average and saves the figure.

  Loading (file or download), the file names and the drawing primitives are outside the
  model: the input is the table as \<^verbatim>\<open>read_csv\<close> delivers it, the output is the content
  of the figure that \<^verbatim>\<open>savefig\<close> writes.

  Numbers: prices, the moving average, the lookback and the tick coordinate are IEEE
  doubles in the program and \<^typ>\<open>real\<close> here, so rounding, NaN prices and infinities
  are idealised away, except for the division by a zero moving average, which is written
  out. A pandas Timestamp and a pandas Timedelta are 64-bit counts of nanoseconds; they
  are integers here, and the two operations of line 91 that can leave the 64-bit range
  raise as pandas does. Every row has a date (no NaT).

  Line 77 sorts with the default algorithm of pandas, which promises no order among rows
  of equal date. The sort is therefore a parameter \<open>srt\<close> of the model, of which the
  theorems assume only that it returns the rows of the table in non-decreasing order of
  date.
\<close>

subsection \<open>Dates\<close>

text \<open>Nanoseconds since 1970-01-01 00:00.\<close>

type_synonym timestamp = int

definition ns_per_day :: int where
  "ns_per_day = 86400000000000"

definition i64_max :: int where
  "i64_max = 9223372036854775807"

text \<open>
  The attributes \<^verbatim>\<open>.year\<close> and \<^verbatim>\<open>.month\<close> of a Timestamp, in the proleptic Gregorian
  calendar: the civil date of a day number, by eras of 400 years (146097 days) that start
  on 1 March.
\<close>

definition civil_from_days :: "int \<Rightarrow> int \<times> int \<times> int" where
  "civil_from_days z0 =
     (let z = z0 + 719468;
          era = z div 146097;
          doe = z mod 146097;
          yoe = (doe - doe div 1460 + doe div 36524 - doe div 146096) div 365;
          y = yoe + era * 400;
          doy = doe - (365 * yoe + yoe div 4 - yoe div 100);
          mp = (5 * doy + 2) div 153;
          d = doy - (153 * mp + 2) div 5 + 1;
          m = (if mp < 10 then mp + 3 else mp - 9)
      in (if m \<le> 2 then y + 1 else y, m, d))"

definition year :: "timestamp \<Rightarrow> int" where
  "year dt = fst (civil_from_days (dt div ns_per_day))"

definition month :: "timestamp \<Rightarrow> int" where
  "month dt = fst (snd (civil_from_days (dt div ns_per_day)))"

text \<open>\<^verbatim>\<open>strftime('%b')\<close> and \<^verbatim>\<open>strftime('%b\n%Y')\<close> in the C locale.\<close>

definition month_abbr :: "string list" where
  "month_abbr = [''Jan'', ''Feb'', ''Mar'', ''Apr'', ''May'', ''Jun'',
                 ''Jul'', ''Aug'', ''Sep'', ''Oct'', ''Nov'', ''Dec'']"

fun digits :: "nat \<Rightarrow> string" where
  "digits n = (if n < 10 then [''0123456789'' ! n]
               else digits (n div 10) @ [''0123456789'' ! (n mod 10)])"

declare digits.simps [simp del]

definition strftime_b :: "timestamp \<Rightarrow> string" where
  "strftime_b dt = month_abbr ! nat (month dt - 1)"

definition strftime_Y :: "timestamp \<Rightarrow> string" where
  "strftime_Y dt = digits (nat (year dt))"

definition strftime_b_Y :: "timestamp \<Rightarrow> string" where
  "strftime_b_Y dt = strftime_b dt @ [CHR 0x0A] @ strftime_Y dt"

subsection \<open>The table\<close>

text \<open>
  One row of the DataFrame: the columns of the input file that the pipeline reads, the
  row label \<open>index\<close> and the added column \<^verbatim>\<open>SMA150\<close>, where \<open>None\<close> is NaN.
\<close>

record bar =
  Date :: timestamp
  Open :: real
  High :: real
  Low :: real
  Close :: real
  Vol :: real

record row = bar +
  index :: nat
  SMA150 :: "real option"

text \<open>
  The exceptions that can leave the routine after loading: the two range errors of
  line 91 and the read of a row that is not there.
\<close>

datatype py_error = IndexError | OutOfBoundsTimedelta | OutOfBoundsDatetime

definition bind :: "py_error + 'a \<Rightarrow> ('a \<Rightarrow> py_error + 'b) \<Rightarrow> py_error + 'b" where
  "bind m f = (case m of Inl e \<Rightarrow> Inl e | Inr v \<Rightarrow> f v)"

text \<open>\<^verbatim>\<open>df.iloc[i]\<close>: by position, a negative position counts from the end.\<close>

definition iloc :: "'a list \<Rightarrow> int \<Rightarrow> py_error + 'a" where
  "iloc df i =
     (if 0 \<le> i \<and> i < int (length df) then Inr (df ! nat i)
      else if - int (length df) \<le> i \<and> i < 0 then Inr (df ! nat (int (length df) + i))
      else Inl IndexError)"

text \<open>\<^verbatim>\<open>int(x)\<close> of a float: truncation towards zero.\<close>

definition py_int :: "real \<Rightarrow> int" where
  "py_int x = (if 0 \<le> x then \<lfloor>x\<rfloor> else \<lceil>x\<rceil>)"

subsection \<open>Preparation: lines 71 to 95\<close>

text \<open>The table as loaded: the rows in file order, labelled 0, 1, 2, ...\<close>

definition read_csv :: "bar list \<Rightarrow> row list" where
  "read_csv bars =
     map (\<lambda>(i, b). \<lparr>Date = Date b, Open = Open b, High = High b, Low = Low b,
                     Close = Close b, Vol = Vol b, index = i, SMA150 = None\<rparr>)
       (enumerate 0 bars)"

text \<open>
  \<^verbatim>\<open>df.sort_values('Date')\<close> is the parameter \<open>srt\<close>. What line 77 promises of it on the
  table \<open>df\<close>: the same rows, in non-decreasing order of date.
\<close>

definition is_sort_values :: "(row list \<Rightarrow> row list) \<Rightarrow> row list \<Rightarrow> bool" where
  "is_sort_values srt df = (mset (srt df) = mset df \<and> sorted (map Date (srt df)))"

definition lookback_window :: nat where
  "lookback_window = 150"

text \<open>
  \<^verbatim>\<open>s.rolling(window=w).mean()\<close>: at position \<open>i\<close> the mean of the \<open>w\<close> values that end
  at \<open>i\<close>, NaN while fewer than \<open>w\<close> values are there.
\<close>

definition rolling_mean :: "nat \<Rightarrow> real list \<Rightarrow> real option list" where
  "rolling_mean w xs =
     map (\<lambda>i. if w \<le> i + 1 then Some (sum_list (take w (drop (i + 1 - w) xs)) / real w)
               else None)
       [0..<length xs]"

definition add_sma :: "row list \<Rightarrow> row list" where
  "add_sma df =
     map (\<lambda>(r, m). r\<lparr>SMA150 := m\<rparr>) (zip df (rolling_mean lookback_window (map Close df)))"

text \<open>
  \<^verbatim>\<open>pd.Timedelta(days=d)\<close> for a float \<open>d\<close>: the days as nanoseconds, cut to a whole
  number by \<^verbatim>\<open>int\<close>, which must fit the 64-bit Timedelta.
\<close>

definition Timedelta_days :: "real \<Rightarrow> py_error + int" where
  "Timedelta_days d =
     (let ns = py_int (d * 24 * 3600 * 1000000000)
      in if - i64_max \<le> ns \<and> ns \<le> i64_max then Inr ns else Inl OutOfBoundsTimedelta)"

text \<open>A Timestamp minus a Timedelta, which must fit the 64-bit Timestamp.\<close>

definition sub_Timedelta :: "timestamp \<Rightarrow> int \<Rightarrow> py_error + timestamp" where
  "sub_Timedelta ts td =
     (if - i64_max \<le> ts - td \<and> ts - td \<le> i64_max then Inr (ts - td)
      else Inl OutOfBoundsDatetime)"

text \<open>
  Lines 90 to 92. The largest date is read first, then the Timedelta is built, then the
  difference is taken; an empty table skips all three.
\<close>

definition filter_years :: "real \<Rightarrow> row list \<Rightarrow> py_error + row list" where
  "filter_years years df =
     (if df \<noteq> [] then
        (let max_date = Max (set (map Date df))
         in bind (Timedelta_days (years * 365)) (\<lambda>td.
            bind (sub_Timedelta max_date td) (\<lambda>cutoff_date.
            Inr (filter (\<lambda>r. cutoff_date < Date r) df))))
      else Inr df)"

definition reset_index :: "row list \<Rightarrow> row list" where
  "reset_index df = map (\<lambda>(i, r). r\<lparr>index := i\<rparr>) (enumerate 0 df)"

text \<open>The table after line 86: sorted, with the moving average, not yet filtered.\<close>

definition sorted_frame :: "(row list \<Rightarrow> row list) \<Rightarrow> bar list \<Rightarrow> row list" where
  "sorted_frame srt bars = add_sma (srt (read_csv bars))"

definition prepare :: "(row list \<Rightarrow> row list) \<Rightarrow> real \<Rightarrow> bar list \<Rightarrow> py_error + row list" where
  "prepare srt years bars =
     bind (filter_years years (sorted_frame srt bars)) (\<lambda>df. Inr (reset_index df))"

text \<open>The input columns of a row, without its label and its moving average.\<close>

definition bar_of :: "row \<Rightarrow> bar" where
  "bar_of r = \<lparr>Date = Date r, Open = Open r, High = High r, Low = Low r,
               Close = Close r, Vol = Vol r\<rparr>"

subsection \<open>Candles: lines 107 and 108\<close>

definition up :: "row list \<Rightarrow> row list" where
  "up df = filter (\<lambda>r. Open r \<le> Close r) df"

definition down :: "row list \<Rightarrow> row list" where
  "down df = filter (\<lambda>r. Close r < Open r) df"

subsection \<open>The x axis: lines 158 to 179\<close>

text \<open>
  The formatter of the tick labels. Its condition is read as Python parses it,
  \<^verbatim>\<open>(dt.month == 1 and prev.year != dt.year) if idx > 0 else True\<close>:
  the conditional expression binds weaker than \<^verbatim>\<open>and\<close>, and \<^verbatim>\<open>and\<close> reads the previous
  row only when the month is January.
\<close>

definition date_fmt :: "row list \<Rightarrow> real \<Rightarrow> py_error + string" where
  "date_fmt df x =
     (let idx = py_int x in
      if 0 \<le> idx \<and> idx < int (length df) then
        bind (iloc df idx) (\<lambda>r.
          let dt = Date r in
          bind (if 0 < idx then
                  (if month dt = 1
                   then bind (iloc df (idx - 1)) (\<lambda>p. Inr (year (Date p) \<noteq> year dt))
                   else Inr False)
                else Inr True)
            (\<lambda>c. if c then Inr (strftime_b_Y dt) else Inr (strftime_b dt)))
      else Inr [])"

text \<open>
  The loop over \<^verbatim>\<open>range(1, len(df))\<close> that appends the positions where the month
  changes, then the insertion of position 0.
\<close>

definition month_changes :: "row list \<Rightarrow> nat list" where
  "month_changes df =
     fold (\<lambda>i acc. if month (Date (df ! i)) \<noteq> month (Date (df ! (i - 1)))
                    then acc @ [i] else acc)
       [1..<length df] []"

definition month_starts :: "row list \<Rightarrow> nat list" where
  "month_starts df =
     (let ms = month_changes df
      in if ms = [] \<or> 20 < hd ms then 0 # ms else ms)"

subsection \<open>Trend status: lines 185 to 222\<close>

text \<open>
  The quotient of two doubles in numpy: a zero divisor gives an infinity or NaN (with a
  warning), not an exception.
\<close>

datatype np_float = Finite real | PosInf | NegInf | NaN

definition np_div :: "real \<Rightarrow> real \<Rightarrow> np_float" where
  "np_div a b =
     (if b \<noteq> 0 then Finite (a / b)
      else if 0 < a then PosInf else if a < 0 then NegInf else NaN)"

fun float_less :: "np_float \<Rightarrow> real \<Rightarrow> bool" where
  "float_less (Finite d) c = (d < c)"
| "float_less NegInf c = True"
| "float_less PosInf c = False"
| "float_less NaN c = False"

fun abs_le :: "np_float \<Rightarrow> real \<Rightarrow> bool" where
  "abs_le (Finite d) c = (\<bar>d\<bar> \<le> c)"
| "abs_le NegInf c = False"
| "abs_le PosInf c = False"
| "abs_le NaN c = False"

definition UP_COLOR :: string where "UP_COLOR = ''#15ff25''"
definition DOWN_COLOR :: string where "DOWN_COLOR = ''#ff8486''"
definition YELLOW :: string where "YELLOW = ''#ffff00''"

text \<open>The pair \<^verbatim>\<open>(status_text, status_color)\<close> after line 201.\<close>

definition status :: "real \<Rightarrow> real option \<Rightarrow> string \<times> string" where
  "status last_close last_sma =
     (case last_sma of
        None \<Rightarrow> ([], UP_COLOR)
      | Some sma \<Rightarrow>
          (let diff_pct = np_div (last_close - sma) sma in
           if float_less diff_pct (- 0.005) then
             (''Below ('' @ digits lookback_window @ '') SMA'', DOWN_COLOR)
           else if abs_le diff_pct 0.005 then
             (''On ('' @ digits lookback_window @ '') SMA'', YELLOW)
           else
             (''Above ('' @ digits lookback_window @ '') SMA'', UP_COLOR)))"

subsection \<open>The whole routine\<close>

text \<open>
  What \<^verbatim>\<open>savefig\<close> writes: the two groups of candles, the line of the moving average,
  the tick positions, the symbol, and the status text with the colour of its dot when
  line 208 finds the text non-empty.
\<close>

record chart =
  up_candles :: "row list"
  down_candles :: "row list"
  sma_line :: "(nat \<times> real option) list"
  xticks :: "nat list"
  symbol_text :: string
  indicator :: "(string \<times> string) option"

text \<open>
  Lines 97 to 228, on the prepared table. \<open>Inr c\<close>: the routine reached \<^verbatim>\<open>savefig\<close>
  and wrote the image with content \<open>c\<close>. \<open>Inl e\<close>: the exception \<open>e\<close> left the routine
  before \<^verbatim>\<open>savefig\<close>, so no image was written. The only statements of this part
  that can raise are the reads of the last row in lines 185 and 186.
\<close>

definition render :: "string \<Rightarrow> row list \<Rightarrow> py_error + chart" where
  "render symbol df =
     (let ticks = month_starts df
      in bind (iloc df (- 1)) (\<lambda>last_row.
           let (status_text, status_color) = status (Close last_row) (SMA150 last_row)
           in Inr \<lparr>up_candles = up df, down_candles = down df,
                    sma_line = map (\<lambda>r. (index r, SMA150 r)) df,
                    xticks = ticks, symbol_text = symbol,
                    indicator = (if status_text \<noteq> [] then Some (status_text, status_color)
                                 else None)\<rparr>))"

definition create_chart ::
  "(row list \<Rightarrow> row list) \<Rightarrow> string \<Rightarrow> real \<Rightarrow> bar list \<Rightarrow> py_error + chart" where
  "create_chart srt symbol years bars = bind (prepare srt years bars) (render symbol)"

subsection \<open>Sample inputs\<close>

text \<open>
  Bars of 2023-12-31 (day 19722, rising), 2024-01-02 (day 19724, falling) and 2024-02-01
  (day 19754, close equal to open), a second bar of 2024-02-01, and a table of the three
  dates out of order.
\<close>

abbreviation bar_dec31 :: bar where
  "bar_dec31 \<equiv> \<lparr>Date = 1703980800000000000, Open = 10, High = 12, Low = 9, Close = 11,
                Vol = 1000\<rparr>"

abbreviation bar_jan02 :: bar where
  "bar_jan02 \<equiv> \<lparr>Date = 1704153600000000000, Open = 11, High = 11, Low = 9, Close = 10,
                Vol = 1500\<rparr>"

abbreviation bar_feb01 :: bar where
  "bar_feb01 \<equiv> \<lparr>Date = 1706745600000000000, Open = 10, High = 13, Low = 10, Close = 10,
                Vol = 2000\<rparr>"

abbreviation bar_feb01_again :: bar where
  "bar_feb01_again \<equiv> \<lparr>Date = 1706745600000000000, Open = 10, High = 14, Low = 10,
                      Close = 12, Vol = 500\<rparr>"

abbreviation three_bars :: "bar list" where
  "three_bars \<equiv> [bar_feb01, bar_dec31, bar_jan02]"

text \<open>
  The rows that preparation with a lookback of one year makes of the three bars and of
  the bar of February alone, and a row whose close lies half a percent above its moving
  average.
\<close>

abbreviation three_rows :: "row list" where
  "three_rows \<equiv>
     [\<lparr>Date = 1703980800000000000, Open = 10, High = 12, Low = 9, Close = 11, Vol = 1000,
        index = 0, SMA150 = None\<rparr>,
      \<lparr>Date = 1704153600000000000, Open = 11, High = 11, Low = 9, Close = 10, Vol = 1500,
        index = 1, SMA150 = None\<rparr>,
      \<lparr>Date = 1706745600000000000, Open = 10, High = 13, Low = 10, Close = 10, Vol = 2000,
        index = 2, SMA150 = None\<rparr>]"

abbreviation feb_rows :: "row list" where
  "feb_rows \<equiv>
     [\<lparr>Date = 1706745600000000000, Open = 10, High = 13, Low = 10, Close = 10, Vol = 2000,
        index = 0, SMA150 = None\<rparr>]"

abbreviation row_on :: row where
  "row_on \<equiv> \<lparr>Date = 1706745600000000000, Open = 100, High = 101, Low = 99, Close = 100.5,
             Vol = 1000, index = 0, SMA150 = Some 100\<rparr>"

text \<open>
  \<open>n\<close> consecutive daily bars from day \<open>d0\<close> on, the \<open>i\<close>-th of them with all four prices
  equal to \<open>i\<close>.
\<close>

definition daily_bars :: "int \<Rightarrow> nat \<Rightarrow> bar list" where
  "daily_bars d0 n =
     map (\<lambda>i. \<lparr>Date = (d0 + int i) * ns_per_day, Open = real i, High = real i, Low = real i,
                 Close = real i, Vol = 0\<rparr>) [0..<n]"

section \<open>Auxiliary facts\<close>

subsection \<open>Errors\<close>

lemma bind_Inr: "bind (Inr v) f = f v"
  by (simp add: bind_def)

lemma bind_Inl: "bind (Inl e) f = Inl e"
  by (simp add: bind_def)

lemma bind_eq_Inr: "bind m f = Inr y \<longleftrightarrow> (\<exists>v. m = Inr v \<and> f v = Inr y)"
  by (cases m) (simp_all add: bind_def)

subsection \<open>Preparation\<close>

lemma bar_of_fields [simp]:
  "Date (bar_of r) = Date r" "Open (bar_of r) = Open r" "High (bar_of r) = High r"
  "Low (bar_of r) = Low r" "Close (bar_of r) = Close r" "Vol (bar_of r) = Vol r"
  by (simp_all add: bar_of_def)

lemma bar_of_update [simp]:
  "bar_of (r\<lparr>SMA150 := m\<rparr>) = bar_of r" "bar_of (r\<lparr>index := i\<rparr>) = bar_of r"
  by (simp_all add: bar_of_def)

lemma bar_of_read_csv: "map bar_of (read_csv bars) = bars"
  by (rule nth_equalityI) (simp_all add: read_csv_def bar_of_def nth_enumerate_eq)

lemma length_read_csv [simp]: "length (read_csv bars) = length bars"
  by (simp add: read_csv_def)

lemma length_rolling_mean [simp]: "length (rolling_mean w xs) = length xs"
  by (simp add: rolling_mean_def)

lemma nth_rolling_mean:
  "i < length xs \<Longrightarrow> rolling_mean w xs ! i =
     (if w \<le> i + 1 then Some (sum_list (take w (drop (i + 1 - w) xs)) / real w) else None)"
  by (simp add: rolling_mean_def)

lemma length_add_sma [simp]: "length (add_sma df) = length df"
  by (simp add: add_sma_def)

lemma bar_of_add_sma [simp]: "map bar_of (add_sma df) = map bar_of df"
  by (rule nth_equalityI) (simp_all add: add_sma_def)

lemma SMA150_add_sma:
  "map SMA150 (add_sma df) = rolling_mean lookback_window (map Close df)"
  by (rule nth_equalityI) (simp_all add: add_sma_def)

lemma Date_add_sma [simp]: "map Date (add_sma df) = map Date df"
  by (rule nth_equalityI) (simp_all add: add_sma_def)

lemma length_reset_index [simp]: "length (reset_index df) = length df"
  by (simp add: reset_index_def)

lemma bar_of_reset_index [simp]: "map bar_of (reset_index df) = map bar_of df"
  by (rule nth_equalityI) (simp_all add: reset_index_def nth_enumerate_eq)

lemma SMA150_reset_index [simp]: "map SMA150 (reset_index df) = map SMA150 df"
  by (rule nth_equalityI) (simp_all add: reset_index_def nth_enumerate_eq)

lemma Date_reset_index [simp]: "map Date (reset_index df) = map Date df"
  by (rule nth_equalityI) (simp_all add: reset_index_def nth_enumerate_eq)


text \<open>What the sort leaves unchanged.\<close>

lemma sort_length: "is_sort_values srt df \<Longrightarrow> length (srt df) = length df"
  by (metis is_sort_values_def size_mset)

lemma sort_sorted: "is_sort_values srt df \<Longrightarrow> sorted (map Date (srt df))"
  by (simp add: is_sort_values_def)

lemma sort_mset_bars:
  "is_sort_values srt (read_csv bars) \<Longrightarrow> mset (map bar_of (srt (read_csv bars))) = mset bars"
proof -
  assume "is_sort_values srt (read_csv bars)"
  then have "mset (srt (read_csv bars)) = mset (read_csv bars)"
    by (simp add: is_sort_values_def)
  then have "mset (map bar_of (srt (read_csv bars))) = mset (map bar_of (read_csv bars))"
    by (metis mset_map)
  then show ?thesis by (simp only: bar_of_read_csv)
qed

lemma sort_key_is_sort_values: "is_sort_values (sort_key Date) df"
  by (simp add: is_sort_values_def)

text \<open>Where no two rows share a date, the order is the only one there is.\<close>

lemma sort_unique:
  assumes "is_sort_values srt df" "distinct (map Date df)"
  shows "srt df = sort_key Date df"
proof -
  have m: "mset (srt df) = mset df"
    using assms(1) by (simp add: is_sort_values_def)
  then have s: "set (srt df) = set df"
    by (rule mset_eq_setD)
  have md: "mset (map Date (srt df)) = mset (map Date df)"
    using m by (metis mset_map)
  have "map Date (srt df) = map Date (sort_key Date df)"
  proof (rule sorted_distinct_set_unique)
    show "sorted (map Date (srt df))"
      using assms(1) by (rule sort_sorted)
    show "distinct (map Date (srt df))"
      using md assms(2) by (metis mset_eq_imp_distinct_iff)
    show "sorted (map Date (sort_key Date df))"
      by (rule sorted_sort_key)
    show "distinct (map Date (sort_key Date df))"
      using assms(2) by (simp add: distinct_map)
    show "set (map Date (srt df)) = set (map Date (sort_key Date df))"
      using s by simp
  qed
  moreover have "inj_on Date (set (srt df) \<union> set (sort_key Date df))"
    using assms(2) s by (simp add: distinct_map)
  ultimately show ?thesis
    by (simp add: inj_on_map_eq_map)
qed

lemma length_sorted_frame:
  "is_sort_values srt (read_csv bars) \<Longrightarrow> length (sorted_frame srt bars) = length bars"
  by (simp add: sorted_frame_def sort_length)

lemma bar_of_sorted_frame:
  "map bar_of (sorted_frame srt bars) = map bar_of (srt (read_csv bars))"
  by (simp add: sorted_frame_def)

lemma Date_sorted_frame: "map Date (sorted_frame srt bars) = map Date (srt (read_csv bars))"
  by (simp add: sorted_frame_def)

lemma SMA150_sorted_frame:
  "map SMA150 (sorted_frame srt bars) =
     rolling_mean lookback_window (map Close (srt (read_csv bars)))"
  by (simp add: sorted_frame_def SMA150_add_sma)

lemma mset_sorted_frame:
  "is_sort_values srt (read_csv bars) \<Longrightarrow> mset (map bar_of (sorted_frame srt bars)) = mset bars"
  by (simp only: bar_of_sorted_frame sort_mset_bars)

lemma Date_set_sorted_frame:
  assumes "is_sort_values srt (read_csv bars)"
  shows "set (map Date (sorted_frame srt bars)) = set (map Date bars)"
proof -
  have "mset (map Date (map bar_of (sorted_frame srt bars))) = mset (map Date bars)"
    using mset_sorted_frame [OF assms] by (metis mset_map)
  then have "set (map Date (map bar_of (sorted_frame srt bars))) = set (map Date bars)"
    by (rule mset_eq_setD)
  then show ?thesis by simp
qed

lemma prepare_Nil: "is_sort_values srt (read_csv []) \<Longrightarrow> prepare srt years [] = Inr []"
proof -
  assume "is_sort_values srt (read_csv [])"
  then have "length (sorted_frame srt []) = 0"
    by (simp add: length_sorted_frame)
  then show ?thesis
    by (simp add: prepare_def filter_years_def bind_Inr reset_index_def)
qed

text \<open>Line 91 for a non-empty table: the Timedelta, the cutoff, and whether both fit.\<close>

lemma prepare_in_range:
  assumes "is_sort_values srt (read_csv bars)" "bars \<noteq> []"
    and "td = py_int (years * 365 * 24 * 3600 * 1000000000)"
    and "c = Max (set (map Date bars)) - td"
    and "- i64_max \<le> td \<and> td \<le> i64_max" "- i64_max \<le> c \<and> c \<le> i64_max"
  shows "prepare srt years bars =
     Inr (reset_index (filter (\<lambda>r. c < Date r) (sorted_frame srt bars)))"
proof -
  have "sorted_frame srt bars \<noteq> []"
    using assms(1,2) length_sorted_frame [of srt bars] by (metis length_0_conv)
  then show ?thesis
    using assms(3-6) Date_set_sorted_frame [OF assms(1)]
    by (simp add: prepare_def filter_years_def Timedelta_days_def sub_Timedelta_def
        Let_def bind_Inr)
qed

lemma prepare_out_of_range:
  assumes "is_sort_values srt (read_csv bars)" "bars \<noteq> []"
    and "td = py_int (years * 365 * 24 * 3600 * 1000000000)"
    and "c = Max (set (map Date bars)) - td"
    and "\<not> (- i64_max \<le> td \<and> td \<le> i64_max \<and> - i64_max \<le> c \<and> c \<le> i64_max)"
  shows "prepare srt years bars = Inl OutOfBoundsTimedelta \<or>
         prepare srt years bars = Inl OutOfBoundsDatetime"
proof -
  have "sorted_frame srt bars \<noteq> []"
    using assms(1,2) length_sorted_frame [of srt bars] by (metis length_0_conv)
  then show ?thesis
    using assms(3-5) Date_set_sorted_frame [OF assms(1)]
    by (auto simp: prepare_def filter_years_def Timedelta_days_def sub_Timedelta_def
        Let_def bind_Inr bind_Inl)
qed

lemma prepare_Inr_D:
  assumes "is_sort_values srt (read_csv bars)" "bars \<noteq> []"
    and "prepare srt years bars = Inr df"
  shows "df = reset_index
           (filter (\<lambda>r. Max (set (map Date bars)) - py_int (years * 365 * 24 * 3600 * 1000000000)
                         < Date r) (sorted_frame srt bars))"
proof (cases "- i64_max \<le> py_int (years * 365 * 24 * 3600 * 1000000000) \<and>
    py_int (years * 365 * 24 * 3600 * 1000000000) \<le> i64_max \<and>
    - i64_max \<le> Max (set (map Date bars)) - py_int (years * 365 * 24 * 3600 * 1000000000) \<and>
    Max (set (map Date bars)) - py_int (years * 365 * 24 * 3600 * 1000000000) \<le> i64_max")
  case True
  then show ?thesis
    using prepare_in_range [OF assms(1,2) refl refl, of years] assms(3) by simp
next
  case False
  then show ?thesis
    using prepare_out_of_range [OF assms(1,2) refl refl, of years] assms(3) by auto
qed

lemma prepare_reset: "prepare srt years bars = Inr df \<Longrightarrow> \<exists>u. df = reset_index u"
  by (auto simp: prepare_def bind_eq_Inr)



lemma filter_sorted_drop:
  "sorted (map Date df) \<Longrightarrow>
   filter (\<lambda>r. c < Date r) df = drop (length df - length (filter (\<lambda>r. c < Date r) df)) (df :: row list)"
proof (induction df)
  case Nil
  then show ?case by simp
next
  case (Cons r df)
  show ?case
  proof (cases "c < Date r")
    case True
    with Cons.prems have "\<forall>q \<in> set df. c < Date q" by auto
    then have "filter (\<lambda>r. c < Date r) df = df" by (simp add: filter_id_conv)
    with True show ?thesis by simp
  next
    case False
    have le: "length (filter (\<lambda>r. c < Date r) df) \<le> length df" by simp
    from Cons have "filter (\<lambda>r. c < Date r) df = drop (length df - length (filter (\<lambda>r. c < Date r) df)) df"
      by simp
    with False le show ?thesis by (simp add: Suc_diff_le)
  qed
qed

lemma prepare_drop:
  assumes "is_sort_values srt (read_csv bars)" "prepare srt years bars = Inr df" "bars \<noteq> []"
  shows "df = reset_index (drop (length bars - length df) (sorted_frame srt bars))"
proof -
  let ?c = "Max (set (map Date bars)) - py_int (years * 365 * 24 * 3600 * 1000000000)"
  have df: "df = reset_index (filter (\<lambda>r. ?c < Date r) (sorted_frame srt bars))"
    using assms by (intro prepare_Inr_D)
  have "sorted (map Date (sorted_frame srt bars))"
    using assms(1) by (simp add: Date_sorted_frame sort_sorted)
  from filter_sorted_drop [OF this, of ?c] show ?thesis
    using df by (simp add: length_sorted_frame [OF assms(1)])
qed

lemma length_prepare_le:
  assumes "is_sort_values srt (read_csv bars)" "prepare srt years bars = Inr df"
  shows "length df \<le> length bars"
proof (cases "bars = []")
  case True
  with assms prepare_Nil [of srt years] show ?thesis by simp
next
  case False
  have "length df \<le> length (sorted_frame srt bars)"
    by (simp add: prepare_Inr_D [OF assms(1) False assms(2)])
  then show ?thesis by (simp add: length_sorted_frame [OF assms(1)])
qed

lemma SMA150_prepare:
  assumes "is_sort_values srt (read_csv bars)" "prepare srt years bars = Inr df"
    and "i < length df"
  shows "SMA150 (df ! i) =
     rolling_mean lookback_window (map Close (srt (read_csv bars)))
       ! (i + (length bars - length df))"
proof -
  let ?d = "length bars - length df"
  have ne: "bars \<noteq> []"
    using assms prepare_Nil [of srt years] by auto
  have le: "length df \<le> length bars"
    using assms(1,2) by (rule length_prepare_le)
  have "map SMA150 df = map SMA150 (drop ?d (sorted_frame srt bars))"
    using prepare_drop [OF assms(1,2) ne] by (metis SMA150_reset_index)
  also have "\<dots> = drop ?d (rolling_mean lookback_window (map Close (srt (read_csv bars))))"
    by (simp add: SMA150_sorted_frame flip: drop_map)
  finally have "map SMA150 df ! i =
      drop ?d (rolling_mean lookback_window (map Close (srt (read_csv bars)))) ! i"
    by simp
  with assms le show ?thesis by (simp add: add.commute sort_length)
qed

lemma bar_of_prepare_nth:
  assumes "is_sort_values srt (read_csv bars)" "prepare srt years bars = Inr df"
    and "i < length df"
  shows "bar_of (df ! i) = bar_of (srt (read_csv bars) ! (i + (length bars - length df)))"
proof -
  let ?d = "length bars - length df"
  have ne: "bars \<noteq> []"
    using assms prepare_Nil [of srt years] by auto
  have le: "length df \<le> length bars"
    using assms(1,2) by (rule length_prepare_le)
  have "map bar_of df = map bar_of (drop ?d (sorted_frame srt bars))"
    using prepare_drop [OF assms(1,2) ne] by (metis bar_of_reset_index)
  also have "\<dots> = drop ?d (map bar_of (srt (read_csv bars)))"
    by (simp add: bar_of_sorted_frame flip: drop_map)
  finally have "map bar_of df ! i = drop ?d (map bar_of (srt (read_csv bars))) ! i"
    by simp
  with assms le show ?thesis by (simp add: add.commute sort_length)
qed

lemma sum_list_window:
  "a + w \<le> length xs \<Longrightarrow> sum_list (take w (drop a xs)) = (\<Sum>k = a..<a + w. (xs ! k :: real))"
proof -
  assume h: "a + w \<le> length xs"
  have "sum_list (take w (drop a xs)) = (\<Sum>k = 0..<w. take w (drop a xs) ! k)"
    using h by (simp add: sum_list_sum_nth)
  also have "\<dots> = (\<Sum>k = 0..<w. xs ! (a + k))"
    using h by (intro sum.cong) simp_all
  also have "\<dots> = (\<Sum>k = a..<a + w. xs ! k)"
    using sum.shift_bounds_nat_ivl [of "\<lambda>k. xs ! k" 0 a w] by (simp add: add.commute)
  finally show ?thesis .
qed

lemma Date_filter:
  "map Date (filter (\<lambda>r. P (Date r)) df) = filter P (map Date (df :: row list))"
  by (induction df) simp_all

lemma Date_prepare:
  assumes "is_sort_values srt (read_csv bars)" "prepare srt years bars = Inr df" "bars \<noteq> []"
  shows "map Date df =
     filter (\<lambda>d. Max (set (map Date bars)) - py_int (years * 365 * 24 * 3600 * 1000000000) < d)
       (map Date (srt (read_csv bars)))"
proof -
  let ?c = "Max (set (map Date bars)) - py_int (years * 365 * 24 * 3600 * 1000000000)"
  have "map Date df = map Date (filter (\<lambda>r. ?c < Date r) (sorted_frame srt bars))"
    by (simp add: prepare_Inr_D [OF assms(1,3,2)])
  also have "\<dots> = filter (\<lambda>d. ?c < d) (map Date (sorted_frame srt bars))"
    by (rule Date_filter)
  finally show ?thesis by (simp only: Date_sorted_frame)
qed

subsection \<open>Plot index\<close>

lemma index_reset_nth: "k < length u \<Longrightarrow> index (reset_index u ! k) = k"
  by (simp add: reset_index_def nth_enumerate_eq)

lemma index_prepare_mem:
  assumes "prepare srt years bars = Inr df" "r \<in> set df"
  shows "index r < length df \<and> df ! index r = r"
proof -
  from assms(1) obtain u where u: "df = reset_index u"
    using prepare_reset by blast
  from assms(2) obtain k where k: "k < length df" "df ! k = r"
    by (auto simp: in_set_conv_nth)
  with u have "index r = k" using index_reset_nth [of k u] by simp
  with k show ?thesis by simp
qed

lemma up_down_filter: "mset (up df) + mset (down df) = mset df"
proof -
  have "(\<lambda>r::row. Close r < Open r) = (\<lambda>r. \<not> Open r \<le> Close r)"
    by (rule ext) auto
  then show ?thesis by (simp add: up_def down_def)
qed

subsection \<open>Reads by position\<close>

lemma iloc_in_range: "0 \<le> i \<Longrightarrow> i < int (length df) \<Longrightarrow> iloc df i = Inr (df ! nat i)"
  by (simp add: iloc_def)

lemma iloc_last: "df \<noteq> [] \<Longrightarrow> iloc df (- 1) = Inr (last df)"
  by (cases df rule: rev_cases) (auto simp: iloc_def nth_append)

lemma iloc_Nil: "iloc [] i = Inl IndexError"
  by (simp add: iloc_def)

subsection \<open>Tick labels\<close>

lemma two_line_neq: "strftime_b_Y dt \<noteq> strftime_b dt"
  by (simp add: strftime_b_Y_def)

lemma py_int_of_nat: "py_int (real i) = int i"
  by (simp add: py_int_def)

lemma date_fmt_in_range:
  assumes "0 \<le> py_int x" "py_int x < int (length df)"
  shows "date_fmt df x =
    Inr (if py_int x = 0 \<or> (month (Date (df ! nat (py_int x))) = 1 \<and>
             year (Date (df ! nat (py_int x - 1))) \<noteq> year (Date (df ! nat (py_int x))))
         then strftime_b_Y (Date (df ! nat (py_int x)))
         else strftime_b (Date (df ! nat (py_int x))))"
proof -
  have cur: "iloc df (py_int x) = Inr (df ! nat (py_int x))"
    using assms by (rule iloc_in_range)
  show ?thesis
  proof (cases "0 < py_int x")
    case True
    then have "iloc df (py_int x - 1) = Inr (df ! nat (py_int x - 1))"
      using assms by (intro iloc_in_range) auto
    with True cur assms show ?thesis
      by (simp add: date_fmt_def Let_def bind_Inr)
  next
    case False
    with assms have "py_int x = 0" by simp
    with cur assms show ?thesis
      by (simp add: date_fmt_def Let_def bind_Inr)
  qed
qed

lemma date_fmt_out_of_range:
  "\<not> (0 \<le> py_int x \<and> py_int x < int (length df)) \<Longrightarrow> date_fmt df x = Inr []"
  by (auto simp: date_fmt_def Let_def)

subsection \<open>Tick positions\<close>

lemma fold_append_filter:
  "fold (\<lambda>i acc. if P i then acc @ [i] else acc) xs acc = acc @ filter P xs"
  by (induction xs arbitrary: acc) simp_all

lemma month_changes_filter:
  "month_changes df =
     filter (\<lambda>i. month (Date (df ! i)) \<noteq> month (Date (df ! (i - 1)))) [1..<length df]"
  by (simp add: month_changes_def fold_append_filter)

lemma set_month_changes:
  "set (month_changes df) =
     {i. 1 \<le> i \<and> i < length df \<and> month (Date (df ! i)) \<noteq> month (Date (df ! (i - 1)))}"
  by (auto simp: month_changes_filter)

lemma sorted_month_changes: "sorted (month_changes df)"
  by (simp add: month_changes_filter sorted_wrt_filter)

lemma hd_sorted_least:
  assumes "sorted xs" "xs \<noteq> []"
  shows "(n::nat) < hd xs \<longleftrightarrow> (\<forall>i \<in> set xs. n < i)"
  using assms by (cases xs) auto

lemma zero_in_month_starts:
  "0 \<in> set (month_starts df) \<longleftrightarrow> (\<forall>i \<in> set (month_changes df). 20 < i)"
proof (cases "month_changes df = []")
  case True
  then show ?thesis by (simp add: month_starts_def)
next
  case False
  have "0 \<notin> set (month_changes df)" by (simp add: set_month_changes)
  with False hd_sorted_least [OF sorted_month_changes False, of 20] show ?thesis
    by (simp add: month_starts_def Let_def)
qed

lemma pos_in_month_starts:
  "1 \<le> i \<Longrightarrow> i \<in> set (month_starts df) \<longleftrightarrow> i \<in> set (month_changes df)"
  by (auto simp: month_starts_def Let_def)

subsection \<open>Trend status\<close>

lemma digits_window: "digits lookback_window = ''150''"
  by (simp add: lookback_window_def digits.simps)

lemma status_None: "status c None = ([], UP_COLOR)"
  by (simp add: status_def)

lemma status_Some:
  "m \<noteq> 0 \<Longrightarrow> status c (Some m) =
     (if (c - m) / m < - 0.005 then (''Below (150) SMA'', DOWN_COLOR)
      else if \<bar>(c - m) / m\<bar> \<le> 0.005 then (''On (150) SMA'', YELLOW)
      else (''Above (150) SMA'', UP_COLOR))"
  by (simp add: status_def np_div_def digits_window)

lemma render_nonempty:
  "df \<noteq> [] \<Longrightarrow>
   render symbol df =
     Inr \<lparr>up_candles = up df, down_candles = down df,
          sma_line = map (\<lambda>r. (index r, SMA150 r)) df,
          xticks = month_starts df, symbol_text = symbol,
          indicator =
            (if fst (status (Close (last df)) (SMA150 (last df))) \<noteq> []
             then Some (status (Close (last df)) (SMA150 (last df))) else None)\<rparr>"
  by (simp add: render_def iloc_last bind_Inr split_def)

lemma render_Nil: "render symbol [] = Inl IndexError"
  by (simp add: render_def iloc_Nil bind_Inl)

subsection \<open>The daily samples\<close>

lemma length_daily [simp]: "length (daily_bars d0 n) = n"
  by (simp add: daily_bars_def)

lemma Date_read_csv: "map Date (read_csv bars) = map Date bars"
  by (rule nth_equalityI) (simp_all add: read_csv_def nth_enumerate_eq)

lemma Close_read_csv: "map Close (read_csv bars) = map Close bars"
  by (rule nth_equalityI) (simp_all add: read_csv_def nth_enumerate_eq)

lemma daily_sorted:
  "sort_key Date (read_csv (daily_bars d0 n)) = read_csv (daily_bars d0 n)"
proof (rule sort_key_id_if_sorted)
  have "sorted (map (\<lambda>i. (d0 + int i) * ns_per_day) [0..<n])"
    by (simp add: sorted_iff_nth_mono ns_per_day_def)
  then show "sorted (map Date (read_csv (daily_bars d0 n)))"
    by (simp add: Date_read_csv daily_bars_def comp_def)
qed

lemma daily_Max:
  "0 < n \<Longrightarrow> Max (set (map Date (daily_bars d0 n))) = (d0 + int n - 1) * ns_per_day"
proof (rule Max_eqI)
  assume "0 < n"
  then show "(d0 + int n - 1) * ns_per_day \<in> set (map Date (daily_bars d0 n))"
    by (auto simp: daily_bars_def image_iff intro!: bexI [of _ "n - 1"])
  show "finite (set (map Date (daily_bars d0 n)))" by simp
  fix y assume "y \<in> set (map Date (daily_bars d0 n))"
  then show "y \<le> (d0 + int n - 1) * ns_per_day"
    by (auto simp: daily_bars_def ns_per_day_def)
qed

lemma daily_closes_sum: "2 * sum_list (map Close (daily_bars d0 n)) = real n * (real n - 1)"
  by (induction n) (simp_all add: daily_bars_def algebra_simps)

lemma daily_closes: "sum_list (map Close (daily_bars 0 150)) = 11175"
  using daily_closes_sum [of 0 150] by simp

lemma filter_upt_ge: "m \<le> n \<Longrightarrow> filter (\<lambda>i. m \<le> i) [0..<n] = [m..<n]"
proof (induction n)
  case 0
  then show ?case by simp
next
  case (Suc n)
  show ?case
  proof (cases "m = Suc n")
    case True
    then have "filter (\<lambda>i. m \<le> i) [0..<n] = []" by (auto simp: filter_empty_conv)
    with True show ?thesis by simp
  next
    case False
    with Suc show ?thesis by simp
  qed
qed

lemma tenth_year: "py_int (0.1 * 365 * 24 * 3600 * 1000000000) = 3153600000000000"
  by (simp add: py_int_def)

lemma daily_prepared:
  "prepare (sort_key Date) 0.1 (daily_bars 0 150) =
     Inr (reset_index (filter (\<lambda>r. 9720000000000000 < Date r)
                              (sorted_frame (sort_key Date) (daily_bars 0 150))))"
proof -
  have ne: "daily_bars 0 150 \<noteq> []"
    by (simp add: daily_bars_def)
  have c: "Max (set (map Date (daily_bars 0 150))) - 3153600000000000 = 9720000000000000"
    using daily_Max [of 150 0] by (simp add: ns_per_day_def)
  show ?thesis
    using prepare_in_range [OF sort_key_is_sort_values ne tenth_year [symmetric] c [symmetric]]
    by (simp add: i64_max_def)
qed

lemma daily_length_filter:
  "length (filter (\<lambda>r. 9720000000000000 < Date r)
                  (sorted_frame (sort_key Date) (daily_bars 0 150))) = 37"
proof -
  let ?P = "\<lambda>d::int. 9720000000000000 < d"
  have "length (filter (\<lambda>r. ?P (Date r)) (sorted_frame (sort_key Date) (daily_bars 0 150))) =
      length (map Date (filter (\<lambda>r. ?P (Date r)) (sorted_frame (sort_key Date) (daily_bars 0 150))))"
    by simp
  also have "\<dots> = length (filter ?P (map Date (daily_bars 0 150)))"
    by (simp only: Date_filter Date_sorted_frame daily_sorted Date_read_csv)
  also have "\<dots> = length (filter (\<lambda>i. ?P (int i * ns_per_day)) [0..<150])"
    by (simp add: daily_bars_def filter_map comp_def)
  also have "(\<lambda>i::nat. ?P (int i * ns_per_day)) = (\<lambda>i. 113 \<le> i)"
    by (rule ext) (simp add: ns_per_day_def, linarith)
  also have "length (filter (\<lambda>i. 113 \<le> i) [0..<150]) = 37"
    by (simp only: filter_upt_ge [of 113 150]) simp
  finally show ?thesis .
qed

lemma daily_SMA_last:
  "SMA150 (projr (prepare (sort_key Date) 0.1 (daily_bars 0 150)) ! 36) = Some 74.5"
proof -
  let ?df = "reset_index (filter (\<lambda>r. 9720000000000000 < Date r)
      (sorted_frame (sort_key Date) (daily_bars 0 150)))"
  have "SMA150 (?df ! 36) =
      rolling_mean lookback_window (map Close (daily_bars 0 150)) ! 149"
    using SMA150_prepare [OF sort_key_is_sort_values daily_prepared, of 36]
    by (simp add: daily_length_filter daily_sorted Close_read_csv)
  also have "\<dots> = Some (sum_list (map Close (daily_bars 0 150)) / 150)"
    by (simp add: nth_rolling_mean lookback_window_def)
  finally show ?thesis
    by (simp add: daily_prepared daily_closes)
qed

subsection \<open>The small samples\<close>

lemma three_prepared: "prepare (sort_key Date) 1 three_bars = Inr three_rows"
  by code_simp

lemma feb_prepared: "prepare (sort_key Date) 1 [bar_feb01] = Inr feb_rows"
  by code_simp


lemma sample_months:
  "month 1703980800000000000 = 12" "month 1704153600000000000 = 1"
  "month 1706745600000000000 = 2" "year 1703980800000000000 = 2023"
  "year 1704153600000000000 = 2024" "year 1706745600000000000 = 2024"
  by code_simp+

lemma sample_labels:
  "strftime_b 1706745600000000000 = ''Feb''"
  "strftime_b_Y 1706745600000000000 = ''Feb'' @ [CHR 0x0A] @ ''2024''"
  "strftime_b_Y 1704153600000000000 = ''Jan'' @ [CHR 0x0A] @ ''2024''"
  by code_simp+


section \<open>The claims\<close>

subsection \<open>Tick labels\<close>

text \<open>
  C1, as amended. For a tick at position \<open>i\<close> of the series, the label is the two-line
  form, month abbreviation, line break, year, exactly when \<open>i = 0\<close> (whatever the month
  is), or \<open>i > 0\<close>, the month of the bar is January and the bar at \<open>i - 1\<close> has another
  year. In every other case it is the month abbreviation alone.
\<close>

theorem date_fmt_label:
  assumes "i < length df"
  shows "(date_fmt df (real i) = Inr (strftime_b_Y (Date (df ! i))) \<longleftrightarrow>
            (i = 0 \<or> (month (Date (df ! i)) = 1 \<and>
                       year (Date (df ! (i - 1))) \<noteq> year (Date (df ! i))))) \<and>
         (date_fmt df (real i) = Inr (strftime_b (Date (df ! i))) \<longleftrightarrow>
            \<not> (i = 0 \<or> (month (Date (df ! i)) = 1 \<and>
                       year (Date (df ! (i - 1))) \<noteq> year (Date (df ! i)))))"
proof -
  have "nat (int i - 1) = i - 1" by simp
  then show ?thesis
    using assms date_fmt_in_range [of "real i" df] two_line_neq [of "Date (df ! i)"]
    by (auto simp: py_int_of_nat)
qed

text \<open>
  In the prepared sample, position 1 is the first bar of January after a bar of December
  2023, and position 2 is a bar of February.
\<close>

theorem date_fmt_label_witness:
  "prepare (sort_key Date) 1 three_bars = Inr three_rows \<and>
   (1::nat) < length three_rows \<and>
   date_fmt three_rows (real 1) = Inr (''Jan'' @ [CHR 0x0A] @ ''2024'') \<and>
   (2::nat) < length three_rows \<and>
   date_fmt three_rows (real 2) = Inr ''Feb''"
proof -
  have len: "(1::nat) < length three_rows" "(2::nat) < length three_rows"
    by simp_all
  show ?thesis
    using date_fmt_label [OF len(1)] date_fmt_label [OF len(2)]
    by (simp add: three_prepared sample_months sample_labels)
qed

text \<open>
  C1 as stated fails at position 0: a series that starts on 2024-02-01 gets the label
  of February with the year there, not the month alone.
\<close>

theorem date_fmt_counterexample:
  "prepare (sort_key Date) 1 [bar_feb01] = Inr feb_rows \<and>
   month (Date (feb_rows ! 0)) = 2 \<and>
   date_fmt feb_rows 0 = Inr (''Feb'' @ [CHR 0x0A] @ ''2024'') \<and>
   date_fmt feb_rows 0 \<noteq> Inr ''Feb''"
proof -
  have "date_fmt feb_rows 0 = Inr (strftime_b_Y 1706745600000000000)"
    using date_fmt_in_range [of 0 feb_rows] by (simp add: py_int_def)
  then show ?thesis
    by (simp add: feb_prepared sample_months sample_labels)
qed

text \<open>
  C10. The formatter returns a string for every series and every coordinate \<open>x\<close>, and
  the empty string whenever \<^verbatim>\<open>int(x)\<close> lies outside \<open>[0, n)\<close>: none of its reads by
  position is out of bounds.
\<close>

theorem date_fmt_total:
  "(\<exists>s. date_fmt df x = Inr s) \<and>
   (\<not> (0 \<le> py_int x \<and> py_int x < int (length df)) \<longrightarrow> date_fmt df x = Inr [])"
proof (cases "0 \<le> py_int x \<and> py_int x < int (length df)")
  case True
  then show ?thesis using date_fmt_in_range [of x df] by simp
next
  case False
  then show ?thesis using date_fmt_out_of_range [of x df] by simp
qed

text \<open>The coordinates 7.5 and -1 on the prepared sample of three rows.\<close>

theorem date_fmt_total_witness:
  "prepare (sort_key Date) 1 three_bars = Inr three_rows \<and>
   \<not> (0 \<le> py_int 7.5 \<and> py_int 7.5 < int (length three_rows)) \<and>
   date_fmt three_rows 7.5 = Inr [] \<and>
   \<not> (0 \<le> py_int (- 1) \<and> py_int (- 1) < int (length three_rows)) \<and>
   date_fmt three_rows (- 1) = Inr []"
proof -
  have "py_int 7.5 = 7" "py_int (- 1) = - 1"
    by code_simp+
  then show ?thesis
    using date_fmt_total [of three_rows "7.5"] date_fmt_total [of three_rows "- 1"]
    by (simp add: three_prepared)
qed

subsection \<open>Empty series\<close>

text \<open>
  C2. The claim asks for a dedicated error when the series is empty. The program has
  none: line 90 lets the empty table pass preparation, and the read of the last row in
  line 185, which no check precedes, ends the routine with an \<open>IndexError\<close>. That is so
  for the empty input and for a one-bar input with a lookback of zero years.
\<close>

theorem empty_series_crash:
  "prepare (sort_key Date) 1 [] = Inr [] \<and>
   create_chart (sort_key Date) ''TQQQ'' 1 [] = Inl IndexError \<and>
   prepare (sort_key Date) 0 [bar_feb01] = Inr [] \<and>
   create_chart (sort_key Date) ''TQQQ'' 0 [bar_feb01] = Inl IndexError"
proof -
  have a: "prepare (sort_key Date) 1 [] = Inr []"
    by (rule prepare_Nil) (rule sort_key_is_sort_values)
  have b: "prepare (sort_key Date) 0 [bar_feb01] = Inr []"
    by code_simp
  show ?thesis
    by (simp add: a b create_chart_def bind_Inr render_Nil)
qed

subsection \<open>Moving average\<close>

text \<open>
  C3, as amended. The moving average is computed on the whole sorted table, before the
  lookback filter removes the oldest rows. Let \<open>s\<close> be the table as line 77 sorted it
  (whatever order it gave to rows of equal date) and \<open>d\<close> the number of rows that the
  filter removed. The prepared row at position \<open>i\<close> is the row at position \<open>j = i + d\<close> of
  \<open>s\<close>. Its moving average is defined if and only if \<open>j \<ge> w - 1\<close> (\<open>w = 150\<close>), and then it
  is the arithmetic mean of the closes at positions \<open>j - w + 1\<close> to \<open>j\<close> of \<open>s\<close>, removed
  rows included.
\<close>

theorem prepare_moving_average:
  assumes "is_sort_values srt (read_csv bars)" "prepare srt years bars = Inr df"
    and "i < length df"
  shows "let j = i + (length bars - length df); s = srt (read_csv bars)
         in bar_of (df ! i) = bar_of (s ! j) \<and>
            (SMA150 (df ! i) \<noteq> None \<longleftrightarrow> lookback_window - 1 \<le> j) \<and>
            (lookback_window - 1 \<le> j \<longrightarrow>
               SMA150 (df ! i) =
                 Some ((\<Sum>k = j + 1 - lookback_window..j. Close (s ! k)) / real lookback_window))"
proof -
  let ?j = "i + (length bars - length df)"
  let ?s = "srt (read_csv bars)"
  let ?closes = "map Close ?s"
  have len: "length ?s = length bars"
    using assms(1) by (simp add: sort_length)
  have j: "?j < length ?closes"
    using assms(3) length_prepare_le [OF assms(1,2)] len by simp
  have sma: "SMA150 (df ! i) = rolling_mean lookback_window ?closes ! ?j"
    using assms by (rule SMA150_prepare)
  have win: "lookback_window - 1 \<le> ?j \<Longrightarrow>
      sum_list (take lookback_window (drop (?j + 1 - lookback_window) ?closes)) =
      (\<Sum>k = ?j + 1 - lookback_window..?j. Close (?s ! k))"
  proof -
    assume h: "lookback_window - 1 \<le> ?j"
    then have e: "?j + 1 - lookback_window + lookback_window = ?j + 1"
      by (simp add: lookback_window_def)
    with j have "sum_list (take lookback_window (drop (?j + 1 - lookback_window) ?closes)) =
        (\<Sum>k = ?j + 1 - lookback_window..<?j + 1 - lookback_window + lookback_window. ?closes ! k)"
      by (intro sum_list_window) simp
    also have "\<dots> = (\<Sum>k = ?j + 1 - lookback_window..?j. ?closes ! k)"
      by (simp only: e) (simp add: atLeastLessThanSuc_atLeastAtMost)
    also have "\<dots> = (\<Sum>k = ?j + 1 - lookback_window..?j. Close (?s ! k))"
      using j by (intro sum.cong) simp_all
    finally show ?thesis .
  qed
  have iff: "lookback_window \<le> ?j + 1 \<longleftrightarrow> lookback_window - 1 \<le> ?j"
    by (simp add: lookback_window_def)
  show ?thesis
    unfolding Let_def
    using bar_of_prepare_nth [OF assms] sma j win iff
    by (simp add: nth_rolling_mean)
qed

text \<open>
  Position 0 of the three sample bars (no average), and position 36 of the 37 rows that
  a lookback of a tenth of a year keeps of 150 daily bars (the average of all 150).
\<close>

theorem prepare_moving_average_witness:
  "is_sort_values (sort_key Date) (read_csv three_bars) \<and>
   prepare (sort_key Date) 1 three_bars = Inr three_rows \<and>
   (0::nat) < length three_rows \<and>
   bar_of (three_rows ! 0) = bar_dec31 \<and>
   SMA150 (three_rows ! 0) = None \<and>
   is_sort_values (sort_key Date) (read_csv (daily_bars 0 150)) \<and>
   (36::nat) < length (projr (prepare (sort_key Date) 0.1 (daily_bars 0 150))) \<and>
   SMA150 (projr (prepare (sort_key Date) 0.1 (daily_bars 0 150)) ! 36) =
     Some ((\<Sum>k = 0..149. Close (sort_key Date (read_csv (daily_bars 0 150)) ! k)) / 150)"
proof -
  let ?df = "projr (prepare (sort_key Date) 0.1 (daily_bars 0 150))"
  have p: "prepare (sort_key Date) 0.1 (daily_bars 0 150) = Inr ?df"
    by (simp add: daily_prepared)
  have len: "(36::nat) < length ?df"
    by (simp add: daily_prepared daily_length_filter)
  have len3: "(0::nat) < length three_rows"
    by simp
  have a: "bar_of (three_rows ! 0) = bar_dec31 \<and> SMA150 (three_rows ! 0) = None"
    using prepare_moving_average [OF sort_key_is_sort_values three_prepared len3]
    by (simp add: bar_of_def)
  have n: "length ?df = 37"
    by (simp add: daily_prepared daily_length_filter)
  have b: "SMA150 (?df ! 36) =
      Some ((\<Sum>k = 0..149. Close (sort_key Date (read_csv (daily_bars 0 150)) ! k)) / 150)"
    using prepare_moving_average [OF sort_key_is_sort_values p len]
    by (simp add: Let_def n lookback_window_def)
  from len a b show ?thesis
    by (simp add: sort_key_is_sort_values three_prepared)
qed

text \<open>
  C3 as stated fails: of 150 daily bars, a lookback of a tenth of a year keeps the last
  37. The last of them, at position 36 of the prepared series, carries a defined moving
  average, the mean 74.5 of all 150 closes, although 36 is less than 149. The 150 dates
  differ, so every sort gives the table of this sample.
\<close>

theorem moving_average_counterexample:
  "\<not> isl (prepare (sort_key Date) 0.1 (daily_bars 0 150)) \<and>
   length (projr (prepare (sort_key Date) 0.1 (daily_bars 0 150))) = 37 \<and>
   SMA150 (projr (prepare (sort_key Date) 0.1 (daily_bars 0 150)) ! 36) = Some 74.5"
  by (simp add: daily_SMA_last) (simp add: daily_prepared daily_length_filter)

subsection \<open>Trend status\<close>

text \<open>
  C4. For a non-empty series the routine writes the image. When the moving average of
  the last row is undefined, the status text is empty and no indicator is drawn.
  Otherwise, for a moving average \<open>m\<close> other than zero and
  \<open>diff = (close - m) / m\<close> on the last row, the indicator is Below exactly when
  \<open>diff < -0.005\<close>, On exactly when \<open>-0.005 \<le> diff \<le> 0.005\<close>, and Above exactly when
  \<open>diff > 0.005\<close>. The series is any table handed to the part of the routine after
  preparation; \<^const>\<open>create_chart\<close> hands it the prepared one.
\<close>

theorem trend_status:
  assumes "df \<noteq> []"
  shows "\<exists>c. render symbol df = Inr c \<and>
     (SMA150 (last df) = None \<longrightarrow>
        fst (status (Close (last df)) (SMA150 (last df))) = [] \<and> indicator c = None) \<and>
     (\<forall>m. SMA150 (last df) = Some m \<and> m \<noteq> 0 \<longrightarrow>
        (indicator c = Some (''Below (150) SMA'', DOWN_COLOR) \<longleftrightarrow>
           (Close (last df) - m) / m < - 0.005) \<and>
        (indicator c = Some (''On (150) SMA'', YELLOW) \<longleftrightarrow>
           - 0.005 \<le> (Close (last df) - m) / m \<and> (Close (last df) - m) / m \<le> 0.005) \<and>
        (indicator c = Some (''Above (150) SMA'', UP_COLOR) \<longleftrightarrow>
           0.005 < (Close (last df) - m) / m))"
proof (cases "SMA150 (last df)")
  case None
  with assms show ?thesis by (simp add: render_nonempty status_None)
next
  case (Some m)
  let ?st = "status (Close (last df)) (SMA150 (last df))"
  let ?c = "\<lparr>up_candles = up df, down_candles = down df,
             sma_line = map (\<lambda>r. (index r, SMA150 r)) df,
             xticks = month_starts df, symbol_text = symbol,
             indicator = (if fst ?st \<noteq> [] then Some ?st else None)\<rparr>"
  have r: "render symbol df = Inr ?c"
    using assms by (rule render_nonempty)
  have "(indicator ?c = Some (''Below (150) SMA'', DOWN_COLOR) \<longleftrightarrow>
           (Close (last df) - m) / m < - 0.005) \<and>
        (indicator ?c = Some (''On (150) SMA'', YELLOW) \<longleftrightarrow>
           - 0.005 \<le> (Close (last df) - m) / m \<and> (Close (last df) - m) / m \<le> 0.005) \<and>
        (indicator ?c = Some (''Above (150) SMA'', UP_COLOR) \<longleftrightarrow>
           0.005 < (Close (last df) - m) / m)"
    if nz: "m \<noteq> 0"
  proof -
    define d where "d = (Close (last df) - m) / m"
    have st: "?st =
        (if d < - 0.005 then (''Below (150) SMA'', DOWN_COLOR)
         else if \<bar>d\<bar> \<le> 0.005 then (''On (150) SMA'', YELLOW)
         else (''Above (150) SMA'', UP_COLOR))"
      using status_Some [OF nz, of "Close (last df)"] by (simp only: Some d_def)
    have "(indicator ?c = Some (''Below (150) SMA'', DOWN_COLOR) \<longleftrightarrow> d < - 0.005) \<and>
          (indicator ?c = Some (''On (150) SMA'', YELLOW) \<longleftrightarrow> - 0.005 \<le> d \<and> d \<le> 0.005) \<and>
          (indicator ?c = Some (''Above (150) SMA'', UP_COLOR) \<longleftrightarrow> 0.005 < d)"
      by (auto simp: st abs_le_iff)
    then show ?thesis by (simp only: d_def)
  qed
  with r Some show ?thesis by (intro exI [of _ ?c]) (simp del: chart.simps)
qed

text \<open>
  A last row with close 100.5 and moving average 100, on the boundary of On, and the
  prepared one-bar series, which has no moving average.
\<close>

theorem trend_status_witness:
  "[row_on] \<noteq> [] \<and>
   (\<exists>c. render ''TQQQ'' [row_on] = Inr c \<and> indicator c = Some (''On (150) SMA'', YELLOW)) \<and>
   prepare (sort_key Date) 1 [bar_feb01] = Inr feb_rows \<and> feb_rows \<noteq> [] \<and>
   (\<exists>c. render ''TQQQ'' feb_rows = Inr c \<and> indicator c = None)"
proof -
  have ne: "[row_on] \<noteq> []" "feb_rows \<noteq> []"
    by simp_all
  show ?thesis
    using trend_status [OF ne(1), of "''TQQQ''"] trend_status [OF ne(2), of "''TQQQ''"]
    by (simp add: feb_prepared) blast
qed

subsection \<open>Tick positions\<close>

text \<open>
  C5, as amended. The tick positions from 1 on are exactly the positions whose month
  differs from the month of the position before. Position 0 is a tick exactly when no
  such change is found at any position from 1 to 20, that is, within the first 21
  positions of the series.
\<close>

theorem month_starts_ticks:
  "(\<forall>i. 1 \<le> i \<longrightarrow>
      (i \<in> set (month_starts df) \<longleftrightarrow>
         i < length df \<and> month (Date (df ! i)) \<noteq> month (Date (df ! (i - 1))))) \<and>
   (0 \<in> set (month_starts df) \<longleftrightarrow>
      \<not> (\<exists>i. 1 \<le> i \<and> i \<le> 20 \<and> i < length df \<and>
             month (Date (df ! i)) \<noteq> month (Date (df ! (i - 1)))))"
proof -
  have "(\<forall>i \<in> set (month_changes df). 20 < i) \<longleftrightarrow>
      \<not> (\<exists>i. 1 \<le> i \<and> i \<le> 20 \<and> i < length df \<and>
             month (Date (df ! i)) \<noteq> month (Date (df ! (i - 1))))"
    by (auto simp: set_month_changes not_le)
  then show ?thesis
    by (simp add: zero_in_month_starts pos_in_month_starts set_month_changes)
qed

text \<open>
  The prepared sample has changes of month at positions 1 and 2, so position 0 is no
  tick; a series of one bar has no change, so position 0 is a tick.
\<close>

theorem month_starts_ticks_witness:
  "prepare (sort_key Date) 1 three_bars = Inr three_rows \<and>
   1 \<in> set (month_starts three_rows) \<and>
   2 \<in> set (month_starts three_rows) \<and>
   0 \<notin> set (month_starts three_rows) \<and>
   0 \<in> set (month_starts feb_rows)"
proof -
  have "\<exists>i. 1 \<le> i \<and> i \<le> 20 \<and> i < length three_rows \<and>
      month (Date (three_rows ! i)) \<noteq> month (Date (three_rows ! (i - 1)))"
    by (intro exI [of _ 1]) (simp add: sample_months)
  then show ?thesis
    using month_starts_ticks [of three_rows] month_starts_ticks [of feb_rows]
    by (simp add: three_prepared sample_months)
qed

text \<open>
  C5 as stated fails: 21 daily bars from 2024-01-12 on have their first 20 positions, 0
  to 19, in January and position 20 in February. No change of month lies within the
  first 20 positions, yet the ticks are \<open>[20]\<close>, without position 0.
\<close>

theorem month_starts_counterexample:
  "map (month \<circ> Date) (projr (prepare (sort_key Date) 1 (daily_bars 19734 21))) =
     replicate 20 1 @ [2] \<and>
   map_sum id xticks (create_chart (sort_key Date) ''TQQQ'' 1 (daily_bars 19734 21)) = Inr [20]"
  by code_simp

subsection \<open>Candles\<close>

text \<open>
  C6. Of a prepared series, the group \<open>up\<close> holds exactly the rows with
  \<open>close \<ge> open\<close> and the group \<open>down\<close> exactly those with \<open>close < open\<close>. The groups
  are disjoint, together they are the series, each row once, and the label of every
  row in a group is its position in the series.
\<close>

theorem up_down_partition:
  assumes "prepare srt years bars = Inr df"
  shows "(\<forall>r. r \<in> set (up df) \<longleftrightarrow> r \<in> set df \<and> Open r \<le> Close r) \<and>
   (\<forall>r. r \<in> set (down df) \<longleftrightarrow> r \<in> set df \<and> Close r < Open r) \<and>
   set (up df) \<inter> set (down df) = {} \<and>
   set (up df) \<union> set (down df) = set df \<and>
   mset (up df) + mset (down df) = mset df \<and>
   (\<forall>r \<in> set (up df) \<union> set (down df). index r < length df \<and> df ! index r = r)"
proof -
  have "set (up df) \<inter> set (down df) = {}" "set (up df) \<union> set (down df) = set df"
    by (auto simp: up_def down_def)
  moreover have "\<forall>r \<in> set (up df) \<union> set (down df). index r < length df \<and> df ! index r = r"
    using index_prepare_mem [OF assms] by (auto simp: up_def down_def)
  ultimately show ?thesis
    using up_down_filter [of df] by (simp add: up_def down_def)
qed

text \<open>
  In the prepared sample the bar of February, with close equal to open, is in \<open>up\<close>, and
  the bar of January is in \<open>down\<close>; both are found at their labels.
\<close>

theorem up_down_partition_witness:
  "prepare (sort_key Date) 1 three_bars = Inr three_rows \<and>
   three_rows ! 2 \<in> set (up three_rows) \<and>
   three_rows ! 1 \<in> set (down three_rows) \<and>
   three_rows ! index (three_rows ! 2) = three_rows ! 2 \<and>
   three_rows ! index (three_rows ! 1) = three_rows ! 1"
  using up_down_partition [OF three_prepared]
  by (simp add: three_prepared)

subsection \<open>Preparation\<close>






text \<open>
  C9, as amended. The prepared series is sorted by date, non-strictly: the program
  never removes a row of a repeated date. It is strictly increasing when the input has
  no repeated date.
\<close>

theorem prepare_sorted:
  assumes "is_sort_values srt (read_csv bars)" "prepare srt years bars = Inr df"
  shows "sorted (map Date df) \<and>
   (distinct (map Date bars) \<longrightarrow> sorted_wrt (<) (map Date df))"
proof (cases "bars = []")
  case True
  with assms prepare_Nil [of srt years] show ?thesis by simp
next
  case False
  have s: "sorted (map Date (srt (read_csv bars)))"
    using assms(1) by (rule sort_sorted)
  have "mset (map Date (map bar_of (srt (read_csv bars)))) = mset (map Date bars)"
    using sort_mset_bars [OF assms(1)] by (metis mset_map)
  then have d: "distinct (map Date bars) \<Longrightarrow> distinct (map Date (srt (read_csv bars)))"
    by (metis (no_types, lifting) List.map.compositionality bar_of_fields(1) comp_apply
        map_eq_conv mset_eq_imp_distinct_iff)
  show ?thesis
    using s d by (auto simp: Date_prepare [OF assms False] strict_sorted_iff sorted_wrt_filter)
qed

text \<open>The three sample bars have three different dates.\<close>

theorem prepare_sorted_witness:
  "is_sort_values (sort_key Date) (read_csv three_bars) \<and>
   prepare (sort_key Date) 1 three_bars = Inr three_rows \<and>
   distinct (map Date three_bars) \<and> sorted_wrt (<) (map Date three_rows)"
  using prepare_sorted [OF sort_key_is_sort_values three_prepared]
  by (simp add: sort_key_is_sort_values three_prepared)

text \<open>
  C9 as stated fails: two bars of the same date both stay in the prepared series.
\<close>

theorem prepare_sorted_counterexample:
  "map_sum id (map Date) (prepare (sort_key Date) 1 [bar_feb01, bar_feb01_again]) =
     Inr [1706745600000000000, 1706745600000000000] \<and>
   \<not> sorted_wrt (<) [1706745600000000000, 1706745600000000000 :: int]"
proof -
  have "map_sum id (map Date) (prepare (sort_key Date) 1 [bar_feb01, bar_feb01_again]) =
     Inr [1706745600000000000, 1706745600000000000]"
    by code_simp
  then show ?thesis by simp
qed

end
